theory Spec2Isabelle
  imports Complex_Main "HOL-Library.Sublist"
begin

section \<open>Python values shared by the scripts\<close>

text \<open>
  A Python \<open>str\<close> is a sequence of Unicode code points, and \<open>in\<close>, \<open>+\<close> and the
  f-strings of the scripts work on code points. A string is therefore modelled as the list
  of its code points (\<open>list(map(ord, s))\<close> in Python), so that the Japanese literals of
  the scripts are written as numbers.
\<close>

type_synonym ustr = "nat list"

text \<open>A literal of ASCII characters only is written as such.\<close>

definition ascii :: "string \<Rightarrow> ustr" where
  "ascii s = map of_char s"

text \<open>
  Exceptions are values. The constructors are the exception classes the scripts name or
  can meet; every one carries the text that \<open>str(e)\<close> gives (\<open>EOFError\<close> is the
  one that \<open>input\<close> raises at the end of standard input, with its fixed text). \<open>OtherException\<close> stands for
  any other subclass of \<open>Exception\<close> (with its class name), \<open>OtherBaseException\<close> for a
  \<open>BaseException\<close> that is not an \<open>Exception\<close> (\<open>asyncio.CancelledError\<close>,
  \<open>KeyboardInterrupt\<close>), which \<open>except Exception\<close> does not catch.
\<close>

datatype py_error =
    AssertionError ustr
  | InputGuardrailTripwireTriggered ustr
  | OutputGuardrailTripwireTriggered ustr
  | MaxTurnsExceeded ustr
  | EOFError
  | OtherException ustr ustr
  | OtherBaseException ustr ustr

fun isinstance_Exception :: "py_error \<Rightarrow> bool" where
  "isinstance_Exception (OtherBaseException cls msg) = False"
| "isinstance_Exception e = True"

text \<open>\<open>type(e).__name__\<close> and \<open>str(e)\<close>.\<close>

fun type_name :: "py_error \<Rightarrow> ustr" where
  "type_name (AssertionError msg) = ascii ''AssertionError''"
| "type_name (InputGuardrailTripwireTriggered msg) = ascii ''InputGuardrailTripwireTriggered''"
| "type_name (OutputGuardrailTripwireTriggered msg) = ascii ''OutputGuardrailTripwireTriggered''"
| "type_name (MaxTurnsExceeded msg) = ascii ''MaxTurnsExceeded''"
| "type_name EOFError = ascii ''EOFError''"
| "type_name (OtherException cls msg) = cls"
| "type_name (OtherBaseException cls msg) = cls"

fun str_exc :: "py_error \<Rightarrow> ustr" where
  "str_exc (AssertionError msg) = msg"
| "str_exc (InputGuardrailTripwireTriggered msg) = msg"
| "str_exc (OutputGuardrailTripwireTriggered msg) = msg"
| "str_exc (MaxTurnsExceeded msg) = msg"
| "str_exc EOFError = ascii ''EOF when reading a line''"
| "str_exc (OtherException cls msg) = msg"
| "str_exc (OtherBaseException cls msg) = msg"

text \<open>\<open>needle in haystack\<close> on strings: some position of the haystack starts with the needle.\<close>

fun py_startswith :: "'a list \<Rightarrow> 'a list \<Rightarrow> bool" where
  "py_startswith [] ys = True"
| "py_startswith (x # xs) [] = False"
| "py_startswith (x # xs) (y # ys) = (x = y \<and> py_startswith xs ys)"

fun py_in :: "'a list \<Rightarrow> 'a list \<Rightarrow> bool" where
  "py_in xs [] = (xs = [])"
| "py_in xs (y # ys) = (py_startswith xs (y # ys) \<or> py_in xs ys)"

text \<open>
  Slices \<open>xs[i:]\<close> and \<open>xs[:j]\<close>: a negative index counts from the end, and an index
  out of range is clamped, never an error.
\<close>

definition py_slice_from :: "'a list \<Rightarrow> int \<Rightarrow> 'a list" where
  "py_slice_from xs i =
     (let n = int (length xs);
          start = (if i < 0 then max (n + i) 0 else min i n)
      in drop (nat start) xs)"

definition py_slice_to :: "'a list \<Rightarrow> int \<Rightarrow> 'a list" where
  "py_slice_to xs j =
     (let n = int (length xs);
          stop = (if j < 0 then max (n + j) 0 else min j n)
      in take (nat stop) xs)"

text \<open>\<open>sep.join(xs)\<close>.\<close>

fun py_join :: "ustr \<Rightarrow> ustr list \<Rightarrow> ustr" where
  "py_join sep [] = []"
| "py_join sep [x] = x"
| "py_join sep (x # y # ys) = x @ sep @ py_join sep (y # ys)"

text \<open>\<open>str(n)\<close> of an integer, in decimal (\<open>48\<close> is the digit zero, \<open>45\<close> the minus sign).\<close>

fun str_nat :: "nat \<Rightarrow> ustr" where
  "str_nat n = (if n < 10 then [48 + n] else str_nat (n div 10) @ [48 + n mod 10])"

declare str_nat.simps [simp del]

definition str_int :: "int \<Rightarrow> ustr" where
  "str_int i = (if i < 0 then 45 # str_nat (nat (- i)) else str_nat (nat i))"

section \<open>06_CustomerService/main.py: the airline tools\<close>

record AirlineAgentContext =
  passenger_name :: "ustr option"
  confirmation_number :: "ustr option"
  seat_number :: "ustr option"
  flight_number :: "ustr option"

subsection \<open>faq_lookup_tool\<close>

text \<open>
  The keywords, in the order of the tests: U+30D0 U+30C3 U+30AF (katakana ba-k-ku),
  U+8377 U+7269 (luggage), U+5E2D (seat), U+98DB U+884C U+6A5F (aeroplane), \<open>WiFi\<close> and
  \<open>Wi-Fi\<close>; then the four answers.
\<close>

definition kw_bakku :: ustr where
  "kw_bakku = [12496, 12483, 12463]"

definition kw_nimotsu :: ustr where
  "kw_nimotsu = [33655, 29289]"

definition kw_seki :: ustr where
  "kw_seki = [24109]"

definition kw_hikouki :: ustr where
  "kw_hikouki = [39131, 34892, 27231]"

definition kw_WiFi :: ustr where
  "kw_WiFi = ascii ''WiFi''"

definition kw_Wi_Fi :: ustr where
  "kw_Wi_Fi = ascii ''Wi-Fi''"

definition faq_baggage :: ustr where
  "faq_baggage = [39131, 34892, 27231, 12395, 12399, 12496, 12483, 12464, 12434, 49, 12388,
     25345, 12385, 36796, 12416, 12371, 12392, 12364, 12391, 12365, 12414, 12377, 12290,
     37325, 37327, 12399, 53, 48, 12509, 12531, 12489, 20197, 19979, 12289, 12469, 12452,
     12474, 12399, 50, 50, 12452, 12531, 12481, 32, 120, 32, 49, 52, 12452, 12531, 12481,
     32, 120, 32, 57, 12452, 12531, 12481, 12391, 12354, 12427, 24517, 35201, 12364, 12354,
     12426, 12414, 12377, 12290]"

definition faq_seats :: ustr where
  "faq_seats = [39131, 34892, 27231, 12395, 12399, 49, 50, 48, 24109, 12354, 12426, 12414,
     12377, 12290, 12499, 12472, 12493, 12473, 12463, 12521, 12473, 12398, 24231, 24109,
     12399, 50, 50, 24109, 12289, 12456, 12467, 12494, 12511, 12540, 12463, 12521, 12473,
     12398, 24231, 24109, 12399, 57, 56, 24109, 12354, 12426, 12414, 12377, 12290, 38750,
     24120, 21475, 12399, 52, 21015, 30446, 12392, 49, 54, 21015, 30446, 12391, 12377,
     12290, 53, 21015, 30446, 12363, 12425, 56, 21015, 30446, 12399, 12456, 12467, 12494,
     12511, 12540, 12503, 12521, 12473, 12391, 12289, 36275, 20803, 12395, 20313, 35029,
     12364, 12354, 12426, 12414, 12377, 12290]"

definition faq_wifi :: ustr where
  "faq_wifi = [39131, 34892, 27231, 12395, 12399, 28961, 26009, 87, 105, 45, 70, 105, 12364,
     12354, 12426, 12414, 12377, 12290, 65, 105, 114, 108, 105, 110, 101, 45, 87, 105, 102,
     105, 12395, 12372, 21442, 21152, 12367, 12384, 12373, 12356]"

definition faq_unknown :: ustr where
  "faq_unknown = [30003, 12375, 35379, 12354, 12426, 12414, 12379, 12435, 12364, 12289,
     12381, 12398, 36074, 21839, 12398, 31572, 12360, 12399, 20998, 12363, 12426, 12414,
     12379, 12435, 12290]"

definition faq_lookup_tool :: "ustr \<Rightarrow> ustr" where
  "faq_lookup_tool question =
     (if py_in kw_bakku question \<or> py_in kw_nimotsu question then faq_baggage
      else if py_in kw_seki question \<or> py_in kw_hikouki question then faq_seats
      else if py_in kw_WiFi question \<or> py_in kw_Wi_Fi question then faq_wifi
      else faq_unknown)"

subsection \<open>update_seat and on_seat_booking_handoff\<close>

text \<open>
  The message of the assertion, and the three fixed parts of the f-string that
  \<open>update_seat\<close> returns.
\<close>

definition flight_number_required :: ustr where
  "flight_number_required =
     [12501, 12521, 12452, 12488, 30058, 21495, 12399, 24517, 38920, 12391, 12377, 12290]"

definition seat_updated :: "ustr \<Rightarrow> ustr \<Rightarrow> ustr" where
  "seat_updated confirmation new_seat =
     [30906, 35469, 30058, 21495, 32] @ confirmation @ [32, 12398, 24231, 24109, 12434, 32]
       @ new_seat @ [32, 12395, 26356, 26032, 12375, 12414, 12375, 12383, 12290]"

text \<open>
  \<open>update_seat\<close> writes both fields of the context first and asserts afterwards, so
  the context it leaves behind is returned in both outcomes. The \<open>assert\<close> is taken as
  executed (Python run without \<open>-O\<close>).
\<close>

definition update_seat ::
  "AirlineAgentContext \<Rightarrow> ustr \<Rightarrow> ustr \<Rightarrow> AirlineAgentContext \<times> (py_error + ustr)" where
  "update_seat ctx confirmation new_seat =
     (let ctx1 = ctx\<lparr>confirmation_number := Some confirmation\<rparr>;
          ctx2 = ctx1\<lparr>seat_number := Some new_seat\<rparr>
      in if flight_number ctx2 \<noteq> None
         then (ctx2, Inr (seat_updated confirmation new_seat))
         else (ctx2, Inl (AssertionError flight_number_required)))"

text \<open>
  \<open>on_seat_booking_handoff\<close> draws \<open>random.randint(100, 999)\<close>; the number drawn is the
  argument \<open>r\<close>.
\<close>

definition on_seat_booking_handoff :: "AirlineAgentContext \<Rightarrow> int \<Rightarrow> AirlineAgentContext" where
  "on_seat_booking_handoff ctx r = ctx\<lparr>flight_number := Some (ascii ''FLT-'' @ str_int r)\<rparr>"

section \<open>0302_Handoff.py: the handoff input filters\<close>

text \<open>
  \<open>HandoffInputData.input_history\<close> is a string or a tuple of input items; the filters
  tell them apart with \<open>isinstance(..., tuple)\<close>.
\<close>

datatype 'i input_history_t = HistoryStr ustr | HistoryTuple "'i list"

record ('i, 'r, 'c) HandoffInputData =
  input_history :: "'i input_history_t"
  pre_handoff_items :: "'r list"
  new_items :: "'r list"
  run_context :: "'c"

definition filter_remove_sensitive_info ::
  "('i, 'r, 'c) HandoffInputData \<Rightarrow> ('i, 'r, 'c) HandoffInputData" where
  "filter_remove_sensitive_info data =
     \<lparr>input_history = input_history data,
      pre_handoff_items = pre_handoff_items data,
      new_items = new_items data,
      run_context = run_context data\<rparr>"

definition filter_summary_only ::
  "('i, 'r, 'c) HandoffInputData \<Rightarrow> ('i, 'r, 'c) HandoffInputData" where
  "filter_summary_only data =
     (let trimmed_history =
            (case input_history data of
               HistoryTuple t \<Rightarrow> HistoryTuple (py_slice_from t (- 3))
             | HistoryStr s \<Rightarrow> HistoryStr s)
      in \<lparr>input_history = trimmed_history,
          pre_handoff_items = pre_handoff_items data,
          new_items = new_items data,
          run_context = run_context data\<rparr>)"

section \<open>0206_Guardrail.py and 0401_Guardrail.py: the guardrail functions\<close>

text \<open>
  A score is a Python \<open>float\<close>, read here as the real number it stands for. The literal
  \<open>0.7\<close> of both scripts is the double nearest to seven tenths, which is also what a
  score written \<open>0.7\<close> parses to; comparisons of doubles are exact, so \<open>>\<close> and \<open>>=\<close>
  against it are the comparisons of the reals.
\<close>

definition float_0_7 :: real where
  "float_0_7 = 3152519739159347 / 4503599627370496"

text \<open>
  What a guardrail function returns: \<open>output_info\<close> is the evaluator's output
  (\<open>Info\<close>), the dictionary \<open>{"error": str(e)}\<close> (\<open>InfoError\<close>), or the dictionary of
  0401 with \<open>detection_type\<close>, \<open>result\<close> and \<open>tripwire_triggered\<close> (\<open>InfoDetection\<close>).
\<close>

datatype 'o output_info_t = Info 'o | InfoError ustr | InfoDetection ustr 'o bool

record 'o GuardrailFunctionOutput =
  output_info :: "'o output_info_t"
  tripwire_triggered :: bool

text \<open>The input of an input guardrail: a string or a list of input items.\<close>

datatype 'i guardrail_input = InputStr ustr | InputList "'i list"

subsection \<open>0206_Guardrail.py\<close>

record InappropriateContentOutput =
  is_inappropriate :: bool
  reason :: ustr
  confidence_score :: real

record ProfessionalityOutput =
  is_professional :: bool
  issues :: "ustr list"
  severity :: ustr

record CustomerResponse =
  response :: ustr
  category :: ustr
  confidence :: real

text \<open>
  The guardrail agent is the predicate evaluator. Its run, \<open>Runner.run(guardrail_agent,
  text, context=...)\<close> followed by \<open>.final_output\<close>, is the argument \<open>run\<close>: it gives
  the evaluator's output or the exception it raised. \<open>str_item\<close> is \<open>str\<close> on an input
  item. The \<open>try\<close> block spans the whole body and \<open>except Exception\<close> catches
  every \<open>Exception\<close>; any other exception leaves the function. What the functions print to
  the console is left out: it does not reach the value returned.
\<close>

definition inappropriate_content_guardrail ::
  "(ustr \<Rightarrow> py_error + InappropriateContentOutput) \<Rightarrow> ('i \<Rightarrow> ustr) \<Rightarrow> 'i guardrail_input
     \<Rightarrow> py_error + InappropriateContentOutput GuardrailFunctionOutput" where
  "inappropriate_content_guardrail run str_item input_data =
     (let text_input =
            (case input_data of
               InputList items \<Rightarrow> py_join [32] (map str_item items)
             | InputStr s \<Rightarrow> s)
      in case run text_input of
           Inr output \<Rightarrow>
             Inr \<lparr>output_info = Info output,
                  tripwire_triggered = (is_inappropriate output \<and> confidence_score output > float_0_7)\<rparr>
         | Inl e \<Rightarrow>
             if isinstance_Exception e
             then Inr \<lparr>output_info = InfoError (str_exc e), tripwire_triggered = False\<rparr>
             else Inl e)"

definition professionality_guardrail ::
  "(ustr \<Rightarrow> py_error + ProfessionalityOutput) \<Rightarrow> CustomerResponse
     \<Rightarrow> py_error + ProfessionalityOutput GuardrailFunctionOutput" where
  "professionality_guardrail run output =
     (case run (response output) of
        Inr check_result \<Rightarrow>
          (let should_trigger =
                 (\<not> is_professional check_result \<and> severity check_result = ascii ''high'')
           in Inr \<lparr>output_info = Info check_result, tripwire_triggered = should_trigger\<rparr>)
      | Inl e \<Rightarrow>
          if isinstance_Exception e
          then Inr \<lparr>output_info = InfoError (str_exc e), tripwire_triggered = False\<rparr>
          else Inl e)"

subsection \<open>0401_Guardrail.py\<close>

text \<open>
  The models of 0401 share field names with those of 0206; the fields of
  \<open>MathHomeworkDetection\<close> carry the prefix \<open>mh_\<close>, those of
  \<open>InappropriateContentDetection\<close> the prefix \<open>icd_\<close> and those of
  \<open>CustomerSupportResponse\<close> the prefix \<open>csr_\<close> where they would clash.
\<close>

record MathHomeworkDetection =
  is_math_homework :: bool
  mh_reasoning :: ustr
  mh_confidence_score :: real

record InappropriateContentDetection =
  icd_is_inappropriate :: bool
  icd_reasoning :: ustr
  icd_severity :: ustr

record CustomerSupportResponse =
  csr_response :: ustr
  csr_category :: ustr
  helpful :: bool

definition math_homework_input_guardrail ::
  "('i guardrail_input \<Rightarrow> py_error + MathHomeworkDetection) \<Rightarrow> 'i guardrail_input
     \<Rightarrow> py_error + MathHomeworkDetection GuardrailFunctionOutput" where
  "math_homework_input_guardrail run input =
     (case run input of
        Inr detection_result \<Rightarrow>
          (let tripwire_should_trigger =
                 (is_math_homework detection_result
                  \<and> mh_confidence_score detection_result \<ge> float_0_7)
           in Inr \<lparr>output_info =
                     InfoDetection (ascii ''math_homework'') detection_result tripwire_should_trigger,
                   tripwire_triggered = tripwire_should_trigger\<rparr>)
      | Inl e \<Rightarrow>
          if isinstance_Exception e
          then Inr \<lparr>output_info = InfoError (str_exc e), tripwire_triggered = True\<rparr>
          else Inl e)"

definition inappropriate_content_output_guardrail ::
  "(ustr \<Rightarrow> py_error + InappropriateContentDetection) \<Rightarrow> CustomerSupportResponse
     \<Rightarrow> py_error + InappropriateContentDetection GuardrailFunctionOutput" where
  "inappropriate_content_output_guardrail run output =
     (case run (csr_response output) of
        Inr detection_result \<Rightarrow>
          (let tripwire_should_trigger =
                 (icd_is_inappropriate detection_result
                  \<and> icd_severity detection_result \<in> set [ascii ''medium'', ascii ''high''])
           in Inr \<lparr>output_info =
                     InfoDetection (ascii ''inappropriate_content'') detection_result
                       tripwire_should_trigger,
                   tripwire_triggered = tripwire_should_trigger\<rparr>)
      | Inl e \<Rightarrow>
          if isinstance_Exception e
          then Inr \<lparr>output_info = InfoError (str_exc e), tripwire_triggered = True\<rparr>
          else Inl e)"

section \<open>0201_Context.py: check_purchase_history\<close>

text \<open>
  \<open>purchase_history\<close> is declared \<open>List[str] = None\<close>, and \<open>__post_init__\<close> replaces
  \<open>None\<close> by the empty list. \<open>preferences\<close> is a dictionary the tool does not read.
\<close>

record 'p UserContext =
  name :: ustr
  user_id :: ustr
  language :: ustr
  is_premium_user :: bool
  location :: ustr
  preferences :: 'p
  purchase_history :: "ustr list option"

definition post_init :: "'p UserContext \<Rightarrow> 'p UserContext" where
  "post_init self =
     (if purchase_history self = None then self\<lparr>purchase_history := Some []\<rparr> else self)"

text \<open>The two fixed texts of the tool, after the user's name.\<close>

definition no_purchase_history_yet :: ustr where
  "no_purchase_history_yet =
     [27096, 12398, 36092, 20837, 23653, 27508, 12399, 12414, 12384, 12354, 12426,
     12414, 12379, 12435]"

definition recent_purchases :: ustr where
  "recent_purchases =
     [27096, 12398, 26368, 36817, 12398, 36092, 20837, 58, 32]"

definition check_purchase_history :: "'p UserContext \<Rightarrow> ustr" where
  "check_purchase_history user =
     (case purchase_history user of
        None \<Rightarrow> name user @ no_purchase_history_yet
      | Some history \<Rightarrow>
          if history = [] then name user @ no_purchase_history_yet
          else (let history_text = py_join (ascii '', '') (py_slice_to history 5)
                in name user @ recent_purchases @ history_text))"

section \<open>0302_Handoff.py: run_scenario\<close>

record CustomerContext =
  customer_name :: ustr
  customer_id :: ustr
  subscription_tier :: ustr
  issue_category :: "ustr option"

text \<open>
  What \<open>run_scenario\<close> reads of the result of \<open>Runner.run\<close>: \<open>final_output\<close> as
  \<open>print\<close> shows it, and the attribute \<open>agent_name\<close>, which the result may lack
  (\<open>hasattr\<close>).
\<close>

record ScenarioResult =
  final_output :: ustr
  agent_name :: "ustr option"

text \<open>The fixed texts \<open>run_scenario\<close> prints (a leading \<open>10\<close> is the newline of the f-string).\<close>

definition label_scenario :: ustr where
  "label_scenario =
     [12471, 12490, 12522, 12458, 58, 32]"

definition label_customer :: ustr where
  "label_customer =
     [39015, 23458, 58, 32]"

definition label_member :: ustr where
  "label_member =
     [20250, 21729, 41]"

definition label_query :: ustr where
  "label_query =
     [21839, 12356, 21512, 12431, 12379, 58, 32]"

definition label_answer :: ustr where
  "label_answer =
     [10, 22238, 31572, 58]"

definition label_last_agent :: ustr where
  "label_last_agent =
     [10, 26368, 32066, 23550, 24540, 12456, 12540, 12472, 12455, 12531, 12488, 58, 32]"

definition label_error :: ustr where
  "label_error =
     [10, 12456, 12521, 12540, 12364, 30330, 29983, 12375, 12414, 12375, 12383, 58, 32]"

definition label_detail :: ustr where
  "label_detail =
     [35443, 32048, 58, 32]"

text \<open>
  The run, \<open>Runner.run(starting_agent=triage_agent, input=..., context=..., max_turns=...)\<close>,
  is the argument \<open>run\<close>, a function of the input, the context and \<open>max_turns\<close> that gives
  the result or the exception raised. \<open>run_scenario\<close> returns the lines it prints, one
  per \<open>print\<close>, and its return value, or the exception that leaves it.
\<close>

definition scenario_header :: "ustr \<Rightarrow> ustr \<Rightarrow> CustomerContext \<Rightarrow> ustr list" where
  "scenario_header scenario_name customer_query context =
     [10 # replicate 60 61,
      label_scenario @ scenario_name,
      replicate 60 61,
      label_customer @ customer_name context @ ascii '' ('' @ subscription_tier context
        @ label_member,
      label_query @ customer_query,
      replicate 60 45]"

definition run_scenario ::
  "(ustr \<Rightarrow> CustomerContext \<Rightarrow> nat \<Rightarrow> py_error + ScenarioResult) \<Rightarrow> ustr \<Rightarrow> ustr
     \<Rightarrow> CustomerContext \<Rightarrow> ustr list \<times> (py_error + bool)" where
  "run_scenario run scenario_name customer_query context =
     (let printed = scenario_header scenario_name customer_query context
      in case run customer_query context 10 of
           Inr result \<Rightarrow>
             (printed @ [label_answer, final_output result]
                @ (case agent_name result of
                     Some a \<Rightarrow> [label_last_agent @ a]
                   | None \<Rightarrow> []),
              Inr True)
         | Inl e \<Rightarrow>
             if isinstance_Exception e
             then (printed @ [label_error @ type_name e, label_detail @ str_exc e], Inr False)
             else (printed, Inl e))"

section \<open>06_CustomerService/main.py: the conversation loop\<close>

datatype agent = TriageAgent | FAQAgent | SeatBookingAgent

fun Agent_name :: "agent \<Rightarrow> ustr" where
  "Agent_name TriageAgent = ascii ''Triage Agent''"
| "Agent_name FAQAgent = ascii ''FAQ Agent''"
| "Agent_name SeatBookingAgent = ascii ''Seat Booking Agent''"

text \<open>
  An input item is the dictionary \<open>{"role": "user", "content": ...}\<close> that the loop
  appends, or any other item that \<open>to_input_list()\<close> returned. A run item of
  \<open>result.new_items\<close> is one of the four classes the loop tells apart, with its agent
  and what is printed of it (for a handoff its source and target agents), or an item of
  another class, with the class name.
\<close>

datatype 'x input_item = UserMessage ustr | OtherInputItem 'x

datatype run_item =
    MessageOutputItem agent ustr
  | HandoffOutputItem agent agent agent
  | ToolCallItem agent
  | ToolCallOutputItem agent ustr
  | OtherRunItem agent ustr

text \<open>
  What the loop reads of the result of \<open>Runner.run\<close>: \<open>new_items\<close>,
  \<open>to_input_list()\<close> and \<open>last_agent\<close> (with the prefix \<open>rr_\<close>, the first being a
  field name of \<open>HandoffInputData\<close> too).
\<close>

record 'x RunResult =
  rr_new_items :: "run_item list"
  rr_to_input_list :: "'x input_item list"
  rr_last_agent :: agent

text \<open>The three variables of \<open>main\<close> that live across turns (\<open>context\<close> is named
  \<open>airline_context\<close> here).\<close>

record 'x main_state =
  current_agent :: agent
  input_items :: "'x input_item list"
  airline_context :: AirlineAgentContext

definition prompt_message :: ustr where
  "prompt_message =
     [12513, 12483, 12475, 12540, 12472, 12434, 20837, 21147, 58, 32]"

fun print_item :: "run_item \<Rightarrow> ustr" where
  "print_item (MessageOutputItem a txt) = Agent_name a @ ascii '': '' @ txt"
| "print_item (HandoffOutputItem a source target) =
     ascii ''Handed off from '' @ Agent_name source @ ascii '' to '' @ Agent_name target"
| "print_item (ToolCallItem a) = Agent_name a @ ascii '': Calling a tool''"
| "print_item (ToolCallOutputItem a out) = Agent_name a @ ascii '': Tool call output: '' @ out"
| "print_item (OtherRunItem a cls) = Agent_name a @ ascii '': Skipping item: '' @ cls"

text \<open>
  One pass of the body of \<open>while True\<close>, after \<open>input\<close> has returned \<open>user_input\<close>.
  The run, \<open>Runner.run(current_agent, input_items, context=context)\<close>, is the argument
  \<open>run\<close>: it gives the context as the run's tools and hooks left it, and the result or the
  exception raised. The user's message is appended to \<open>input_items\<close> before the run, in
  place. Nothing in \<open>main\<close> catches an exception, so one that the run raises ends the turn
  and the loop; the turn then gives the state as it stands, what was printed, and the
  exception. The tracing context manager is left out.
\<close>

definition main_turn ::
  "'x main_state \<Rightarrow> ustr
     \<Rightarrow> (agent \<Rightarrow> 'x input_item list \<Rightarrow> AirlineAgentContext
           \<Rightarrow> AirlineAgentContext \<times> (py_error + 'x RunResult))
     \<Rightarrow> 'x main_state \<times> ustr list \<times> py_error option" where
  "main_turn st user_input run =
     (let appended = input_items st @ [UserMessage user_input]
      in case run (current_agent st) appended (airline_context st) of
           (ctx, Inl e) \<Rightarrow>
             (st\<lparr>input_items := appended, airline_context := ctx\<rparr>, [], Some e)
         | (ctx, Inr result) \<Rightarrow>
             (st\<lparr>input_items := rr_to_input_list result,
                 current_agent := rr_last_agent result,
                 airline_context := ctx\<rparr>,
              map print_item (rr_new_items result),
              None))"

text \<open>
  The loop, over the lines that standard input still holds. \<open>input\<close> writes the prompt
  and raises \<open>EOFError\<close> when no line is left, so on a finite input the loop always ends
  with an exception: that one, or the first that a run raises.
\<close>

fun main_loop ::
  "'x main_state \<Rightarrow> ustr list
     \<Rightarrow> (agent \<Rightarrow> 'x input_item list \<Rightarrow> AirlineAgentContext
           \<Rightarrow> AirlineAgentContext \<times> (py_error + 'x RunResult))
     \<Rightarrow> 'x main_state \<times> ustr list \<times> py_error" where
  "main_loop st [] run = (st, [prompt_message], EOFError)"
| "main_loop st (user_input # rest) run =
     (case main_turn st user_input run of
        (st', printed, Some e) \<Rightarrow> (st', prompt_message # printed, e)
      | (st', printed, None) \<Rightarrow>
          (case main_loop st' rest run of
             (st'', printed', e) \<Rightarrow> (st'', prompt_message # printed @ printed', e)))"

definition initial_state :: "'x main_state" where
  "initial_state =
     \<lparr>current_agent = TriageAgent,
      input_items = [],
      airline_context = \<lparr>passenger_name = None, confirmation_number = None,
                 seat_number = None, flight_number = None\<rparr>\<rparr>"

definition main ::
  "ustr list
     \<Rightarrow> (agent \<Rightarrow> 'x input_item list \<Rightarrow> AirlineAgentContext
           \<Rightarrow> AirlineAgentContext \<times> (py_error + 'x RunResult))
     \<Rightarrow> 'x main_state \<times> ustr list \<times> py_error" where
  "main stdin run = main_loop initial_state stdin run"

text \<open>
  Two runs for concrete turns: one that raises \<open>e\<close> whatever it is given, one that
  returns \<open>result\<close>; both leave the context as it is.
\<close>

definition run_raises ::
  "py_error \<Rightarrow> agent \<Rightarrow> 'x input_item list \<Rightarrow> AirlineAgentContext
     \<Rightarrow> AirlineAgentContext \<times> (py_error + 'x RunResult)" where
  "run_raises e a items ctx = (ctx, Inl e)"

definition run_returns ::
  "'x RunResult \<Rightarrow> agent \<Rightarrow> 'x input_item list \<Rightarrow> AirlineAgentContext
     \<Rightarrow> AirlineAgentContext \<times> (py_error + 'x RunResult)" where
  "run_returns result a items ctx = (ctx, Inr result)"

section \<open>The handoff configuration of 0302_Handoff.py and 06_CustomerService/main.py\<close>






section \<open>0206_Guardrail.py: test_agent_with_guardrails\<close>

text \<open>The fixed texts of the demonstration, and its three test cases.\<close>

definition banner_guardrails :: ustr where
  "banner_guardrails =
     [128737, 65039, 32, 32, 71, 117, 97, 114, 100, 114, 97, 105, 108, 115, 32, 12487,
     12514, 12531, 12473, 12488, 12524, 12540, 12471, 12519, 12531]"

definition label_test_case :: ustr where
  "label_test_case =
     [10, 128221, 32, 12486, 12473, 12488, 12465, 12540, 12473, 32]"

definition label_input_open :: ustr where
  "label_input_open =
     [20837, 21147, 58, 32, 12300]"

definition label_input_close :: ustr where
  "label_input_close =
     [12301]"

definition line_success :: ustr where
  "line_success =
     [9989, 32, 23455, 34892, 25104, 21151]"

definition label_response :: ustr where
  "label_response =
     [128172, 32, 24540, 31572, 58, 32]"

definition label_category :: ustr where
  "label_category =
     [128202, 32, 12459, 12486, 12468, 12522, 58, 32]"

definition label_confidence :: ustr where
  "label_confidence =
     [127919, 32, 20449, 38972, 24230, 58, 32]"

definition line_input_tripwire :: ustr where
  "line_input_tripwire =
     [128680, 32, 73, 110, 112, 117, 116, 32, 71, 117, 97, 114, 100, 114, 97, 105, 108,
     32, 12364, 12488, 12522, 12460, 12540, 12373, 12428, 12414, 12375, 12383]"

definition line_input_reason :: ustr where
  "line_input_reason =
     [29702, 30001, 58, 32, 19981, 36969, 20999, 12394, 20837, 21147, 12364, 26908,
     20986, 12373, 12428, 12414, 12375, 12383]"

definition line_output_tripwire :: ustr where
  "line_output_tripwire =
     [128680, 32, 79, 117, 116, 112, 117, 116, 32, 71, 117, 97, 114, 100, 114, 97, 105,
     108, 32, 12364, 12488, 12522, 12460, 12540, 12373, 12428, 12414, 12375, 12383]"

definition line_output_reason :: ustr where
  "line_output_reason =
     [29702, 30001, 58, 32, 19981, 36969, 20999, 12394, 24540, 31572, 12364, 26908,
     20986, 12373, 12428, 12414, 12375, 12383]"

definition label_issues :: ustr where
  "label_issues =
     [21839, 38988, 28857, 58, 32]"

definition label_unexpected :: ustr where
  "label_unexpected =
     [10060, 32, 20104, 26399, 12375, 12394, 12356, 12456, 12521, 12540, 58, 32]"

definition label_error_type :: ustr where
  "label_error_type =
     [12456, 12521, 12540, 12479, 12452, 12503, 58, 32]"

definition tc1_input :: ustr where
  "tc1_input =
     [36820, 37329, 12509, 12522, 12471, 12540, 12395, 12388, 12356, 12390, 25945,
     12360, 12390, 12367, 12384, 12373, 12356]"

definition tc1_description :: ustr where
  "tc1_description =
     [36969, 20999, 12394, 36074, 21839, 65288, 71, 117, 97, 114, 100, 114, 97, 105,
     108, 12399, 36890, 36942, 12377, 12427, 65289]"

definition tc2_input :: ustr where
  "tc2_input =
     [12362, 12356, 12289, 12469, 12509, 12540, 12488, 65281, 36895, 12367, 31572,
     12360, 12429, 65281]"

definition tc2_description :: ustr where
  "tc2_description =
     [19981, 36969, 20999, 12394, 36074, 21839, 65288, 73, 110, 112, 117, 116, 32, 71,
     117, 97, 114, 100, 114, 97, 105, 108, 12391, 12502, 12525, 12483, 12463, 12373,
     12428, 12427, 21487, 33021, 24615, 65289]"

definition tc3_input :: ustr where
  "tc3_input =
     [25968, 23398, 12398, 23487, 38988, 12434, 25163, 20253, 12387, 12390, 12367,
     12384, 12373, 12356, 58, 32, 50, 120, 32, 43, 32, 51, 32, 61, 32, 49, 49, 32,
     12398, 32, 120, 32, 12434, 27714, 12417, 12390, 12367, 12384, 12373, 12356]"

definition tc3_description :: ustr where
  "tc3_description =
     [26989, 21209, 22806, 12398, 36074, 21839, 65288, 73, 110, 112, 117, 116, 32, 71,
     117, 97, 114, 100, 114, 97, 105, 108, 12391, 12502, 12525, 12483, 12463, 12373,
     12428, 12427, 21487, 33021, 24615, 65289]"

record test_case =
  tc_input :: ustr
  tc_description :: ustr

definition test_cases :: "test_case list" where
  "test_cases =
     [\<lparr>tc_input = tc1_input, tc_description = tc1_description\<rparr>,
      \<lparr>tc_input = tc2_input, tc_description = tc2_description\<rparr>,
      \<lparr>tc_input = tc3_input, tc_description = tc3_description\<rparr>]"

text \<open>
  The run of the support agent, \<open>Runner.run(customer_support_agent, test_case['input'],
  context=user_context)\<close> with \<open>.final_output\<close>, is the argument \<open>run\<close>, a function of
  the input and the context. Three more arguments stand for what the script leaves to
  Python and the SDK: \<open>fmt2\<close> is the format \<open>:.2f\<close> of a float; \<open>reasons_of e\<close> lists the
  \<open>reason\<close> of every entry of \<open>e.guardrail_results\<close> whose \<open>output_info\<close> has one (no
  entry when \<open>e\<close> has no such attribute), and \<open>issues_of e\<close> the \<open>issues\<close> likewise.

  \<open>run_case\<close> is the \<open>try\<close> statement of the loop body: the lines it prints, and the
  exception that leaves it, if any (\<open>except Exception\<close> is its last handler).
\<close>

definition run_case ::
  "(real \<Rightarrow> ustr) \<Rightarrow> (py_error \<Rightarrow> ustr list) \<Rightarrow> (py_error \<Rightarrow> ustr list list)
     \<Rightarrow> py_error + CustomerResponse \<Rightarrow> ustr list \<times> py_error option" where
  "run_case fmt2 reasons_of issues_of outcome =
     (case outcome of
        Inr final \<Rightarrow>
          ([line_success,
            label_response @ response final,
            label_category @ category final,
            label_confidence @ fmt2 (confidence final)],
           None)
      | Inl (InputGuardrailTripwireTriggered msg) \<Rightarrow>
          ([line_input_tripwire, line_input_reason]
             @ map (\<lambda>r. label_detail @ r) (reasons_of (InputGuardrailTripwireTriggered msg)),
           None)
      | Inl (OutputGuardrailTripwireTriggered msg) \<Rightarrow>
          ([line_output_tripwire, line_output_reason]
             @ map (\<lambda>is. label_issues @ py_join (ascii '', '') is)
                 (issues_of (OutputGuardrailTripwireTriggered msg)),
           None)
      | Inl e \<Rightarrow>
          if isinstance_Exception e
          then ([label_unexpected @ str_exc e, label_error_type @ type_name e], None)
          else ([], Some e))"

definition case_header :: "nat \<Rightarrow> test_case \<Rightarrow> ustr list" where
  "case_header i tc =
     [label_test_case @ str_nat i @ ascii '': '' @ tc_description tc,
      label_input_open @ tc_input tc @ label_input_close,
      replicate 60 45]"

text \<open>
  The \<open>for\<close> loop over \<open>enumerate(test_cases, 1)\<close>. No variable of the loop carries
  anything from one case to the next but the counter: the script keeps no list of turns,
  and every call of \<open>Runner.run\<close> is given the string \<open>test_case['input']\<close> alone as
  its input. The loop gives the lines printed, the inputs handed to \<open>Runner.run\<close>, one
  per call and in the order of the calls, and the exception that leaves it, if any.
\<close>

fun guardrail_cases ::
  "(real \<Rightarrow> ustr) \<Rightarrow> (py_error \<Rightarrow> ustr list) \<Rightarrow> (py_error \<Rightarrow> ustr list list)
     \<Rightarrow> (ustr \<Rightarrow> 'c \<Rightarrow> py_error + CustomerResponse) \<Rightarrow> 'c \<Rightarrow> nat \<Rightarrow> test_case list
     \<Rightarrow> ustr list \<times> ustr list \<times> py_error option" where
  "guardrail_cases fmt2 reasons_of issues_of run user_context i [] = ([], [], None)"
| "guardrail_cases fmt2 reasons_of issues_of run user_context i (tc # rest) =
     (case run_case fmt2 reasons_of issues_of (run (tc_input tc) user_context) of
        (printed, Some e) \<Rightarrow> (case_header i tc @ printed, [tc_input tc], Some e)
      | (printed, None) \<Rightarrow>
          (case guardrail_cases fmt2 reasons_of issues_of run user_context (Suc i) rest of
             (printed', inputs', err) \<Rightarrow>
               (case_header i tc @ printed @ [replicate 60 45] @ printed',
                tc_input tc # inputs',
                err)))"

definition test_agent_with_guardrails ::
  "(real \<Rightarrow> ustr) \<Rightarrow> (py_error \<Rightarrow> ustr list) \<Rightarrow> (py_error \<Rightarrow> ustr list list)
     \<Rightarrow> (ustr \<Rightarrow> 'c \<Rightarrow> py_error + CustomerResponse) \<Rightarrow> 'c
     \<Rightarrow> ustr list \<times> ustr list \<times> py_error option" where
  "test_agent_with_guardrails fmt2 reasons_of issues_of run user_context =
     (case guardrail_cases fmt2 reasons_of issues_of run user_context 1 test_cases of
        (printed, inputs, err) \<Rightarrow>
          ([replicate 80 61, banner_guardrails, replicate 80 61] @ printed, inputs, err))"


text \<open>
  For concrete scenarios of 0302: a customer, and a run that raises \<open>e\<close> whatever it is
  given.
\<close>

definition sample_customer :: CustomerContext where
  "sample_customer =
     \<lparr>customer_name = ascii ''n'', customer_id = ascii ''CUST001'',
      subscription_tier = ascii ''free'', issue_category = None\<rparr>"

definition scenario_run_raises ::
  "py_error \<Rightarrow> ustr \<Rightarrow> CustomerContext \<Rightarrow> nat \<Rightarrow> py_error + ScenarioResult" where
  "scenario_run_raises e customer_query ctx max_turns = Inl e"

text \<open>
  Two evaluators for concrete runs: one that raises \<open>e\<close> on every input, one that
  returns \<open>v\<close> on every input.
\<close>

definition raises :: "py_error \<Rightarrow> 'a \<Rightarrow> py_error + 'b" where
  "raises e x = Inl e"

definition returns :: "'b \<Rightarrow> 'a \<Rightarrow> py_error + 'b" where
  "returns v x = Inr v"

section \<open>Facts about the shared operations\<close>

lemma py_startswith_iff: "py_startswith xs ys \<longleftrightarrow> (\<exists>ss. ys = xs @ ss)"
  by (induction xs ys rule: py_startswith.induct) auto

lemma py_in_iff: "py_in xs ys \<longleftrightarrow> (\<exists>ps ss. ys = ps @ xs @ ss)"
proof (induction ys)
  case Nil
  show ?case by auto
next
  case (Cons y ys)
  have "py_in xs (y # ys) \<longleftrightarrow> prefix xs (y # ys) \<or> sublist xs ys"
    using Cons by (simp add: py_startswith_iff prefix_def sublist_def)
  also have "\<dots> \<longleftrightarrow> sublist xs (y # ys)"
    by (simp add: sublist_Cons_right)
  finally show ?case by (simp add: sublist_def)
qed

lemma py_in_set: "py_in xs ys \<Longrightarrow> set xs \<subseteq> set ys"
  by (auto simp: py_in_iff)

lemma py_slice_from_neg:
  "0 < k \<Longrightarrow> py_slice_from xs (- int k) = drop (length xs - k) xs"
  by (auto simp: py_slice_from_def Let_def max_def nat_diff_distrib')

lemma py_slice_from_minus3: "py_slice_from xs (- 3) = drop (length xs - 3) xs"
  using py_slice_from_neg [of 3 xs] by simp

lemma py_slice_to_nat: "py_slice_to xs (int k) = take k xs"
  by (auto simp: py_slice_to_def Let_def min_def)

section \<open>Facts about the loop of 0206 and the handoff configurations\<close>






section \<open>The claims\<close>

text \<open>
  C9. \<open>faq_lookup_tool\<close> is a total, pure function of the question: for every string it
  returns one of four fixed strings, chosen by the first keyword test that succeeds, in
  the order baggage (\<open>kw_bakku\<close> or \<open>kw_nimotsu\<close> occurs in the question), seats
  (\<open>kw_seki\<close> or \<open>kw_hikouki\<close>), WiFi (\<open>WiFi\<close> or \<open>Wi-Fi\<close>), and the fallback otherwise.
  "Occurs in" is stated on its own terms: the question is some prefix, the keyword, some
  suffix.
\<close>

theorem faq_lookup_tool_first_match:
  "faq_lookup_tool q =
     (if (\<exists>ps ss. q = ps @ kw_bakku @ ss) \<or> (\<exists>ps ss. q = ps @ kw_nimotsu @ ss)
        then faq_baggage
      else if (\<exists>ps ss. q = ps @ kw_seki @ ss) \<or> (\<exists>ps ss. q = ps @ kw_hikouki @ ss)
        then faq_seats
      else if (\<exists>ps ss. q = ps @ kw_WiFi @ ss) \<or> (\<exists>ps ss. q = ps @ kw_Wi_Fi @ ss)
        then faq_wifi
      else faq_unknown)
   \<and> faq_lookup_tool q \<in> {faq_baggage, faq_seats, faq_wifi, faq_unknown}"
  unfolding faq_lookup_tool_def py_in_iff by simp

text \<open>
  C8. \<open>update_seat\<close> raises \<open>AssertionError\<close> exactly when the context's flight number
  is \<open>None\<close> when it is called, and it has written the confirmation number and the seat
  number by then in either case, leaving the flight number and the passenger name as they
  were. \<open>on_seat_booking_handoff\<close> sets the flight number to a string whatever number is
  drawn, so on a context it has run on \<open>update_seat\<close> returns its message, with both
  fields set, and never the assertion error; this stays so after any further
  \<open>update_seat\<close>, which does not touch the flight number.
\<close>

theorem update_seat_assertion:
  "snd (update_seat ctx c s) =
     (if flight_number ctx = None then Inl (AssertionError flight_number_required)
      else Inr (seat_updated c s))
   \<and> fst (update_seat ctx c s) = ctx\<lparr>confirmation_number := Some c, seat_number := Some s\<rparr>
   \<and> flight_number (fst (update_seat ctx c s)) = flight_number ctx
   \<and> flight_number (on_seat_booking_handoff ctx r) = Some (ascii ''FLT-'' @ str_int r)
   \<and> update_seat (on_seat_booking_handoff ctx r) c s =
       ((on_seat_booking_handoff ctx r)\<lparr>confirmation_number := Some c, seat_number := Some s\<rparr>,
        Inr (seat_updated c s))"
  by (simp add: update_seat_def on_seat_booking_handoff_def Let_def)

text \<open>
  C10. The handoff input filters change no field but \<open>input_history\<close>.
  \<open>filter_summary_only\<close> returns its argument with \<open>pre_handoff_items\<close>, \<open>new_items\<close>
  and \<open>run_context\<close> as they were; a history that is a tuple is replaced by its last
  three elements (the suffix of length three, or the whole tuple when it is shorter), and
  a history that is a string is kept. \<open>filter_remove_sensitive_info\<close> returns all four
  fields as they were: it is the identity.
\<close>

theorem handoff_filters_frame:
  "pre_handoff_items (filter_summary_only d) = pre_handoff_items d
   \<and> new_items (filter_summary_only d) = new_items d
   \<and> run_context (filter_summary_only d) = run_context d
   \<and> input_history (filter_summary_only (d\<lparr>input_history := HistoryTuple t\<rparr>)) =
       HistoryTuple (drop (length t - 3) t)
   \<and> (\<exists>ps. t = ps @ drop (length t - 3) t)
   \<and> length (drop (length t - 3) t) = min 3 (length t)
   \<and> input_history (filter_summary_only (d\<lparr>input_history := HistoryStr s\<rparr>)) = HistoryStr s
   \<and> filter_remove_sensitive_info d = d"
proof -
  have frame: "pre_handoff_items (filter_summary_only d) = pre_handoff_items d
      \<and> new_items (filter_summary_only d) = new_items d
      \<and> run_context (filter_summary_only d) = run_context d"
    by (simp add: filter_summary_only_def)
  have tuple: "input_history (filter_summary_only (d\<lparr>input_history := HistoryTuple t\<rparr>)) =
       HistoryTuple (drop (length t - 3) t)"
    by (simp add: filter_summary_only_def py_slice_from_minus3)
  have suffix: "\<exists>ps. t = ps @ drop (length t - 3) t"
    by (intro exI [of _ "take (length t - 3) t"]) simp
  have len: "length (drop (length t - 3) t) = min 3 (length t)"
    by auto
  have str: "input_history (filter_summary_only (d\<lparr>input_history := HistoryStr s\<rparr>)) = HistoryStr s"
    by (simp add: filter_summary_only_def)
  have ident: "filter_remove_sensitive_info d = d"
    by (simp add: filter_remove_sensitive_info_def)
  from frame tuple suffix len str ident show ?thesis
    by blast
qed

text \<open>
  C1, as the claim states it, fails on both scripts. When the evaluator raises
  \<open>TimeoutError\<close>, the output guardrail of 0206 returns a verdict that does not block
  (the claim has every output check fail closed), and the input guardrail of 0401 returns
  a verdict that blocks (the claim has every input check fail open).
\<close>

theorem guardrail_failure_policy_counterexample:
  "professionality_guardrail (raises (OtherException (ascii ''TimeoutError'') []))
       \<lparr>response = [], category = [], confidence = 0\<rparr>
     = Inr \<lparr>output_info = InfoError [], tripwire_triggered = False\<rparr>
   \<and> math_homework_input_guardrail (raises (OtherException (ascii ''TimeoutError'') []))
       (InputStr [] :: ustr guardrail_input)
     = Inr \<lparr>output_info = InfoError [], tripwire_triggered = True\<rparr>"
  by (simp add: professionality_guardrail_def math_homework_input_guardrail_def raises_def)

text \<open>
  C1, amended. The failure policy goes by script, not by direction. When the evaluator
  raises an \<open>Exception\<close>, both guardrails of 0206 (input and output) return a verdict
  that does not block, and both guardrails of 0401 (input and output) return a verdict
  that blocks; in all four the verdict's \<open>output_info\<close> is \<open>{"error": str(e)}\<close>. An
  exception that is not an \<open>Exception\<close> is not caught and leaves the guardrail.
\<close>

theorem guardrail_failure_policy:
  assumes "run_in (case input_data of
                   InputList items \<Rightarrow> py_join [32] (map str_item items)
                 | InputStr s \<Rightarrow> s) = Inl e"
    and "run_out (response answer) = Inl e"
    and "run_mh input = Inl e"
    and "run_icd (csr_response reply) = Inl e"
  shows "inappropriate_content_guardrail run_in str_item input_data =
           (if isinstance_Exception e
            then Inr \<lparr>output_info = InfoError (str_exc e), tripwire_triggered = False\<rparr>
            else Inl e)
       \<and> professionality_guardrail run_out answer =
           (if isinstance_Exception e
            then Inr \<lparr>output_info = InfoError (str_exc e), tripwire_triggered = False\<rparr>
            else Inl e)
       \<and> math_homework_input_guardrail run_mh input =
           (if isinstance_Exception e
            then Inr \<lparr>output_info = InfoError (str_exc e), tripwire_triggered = True\<rparr>
            else Inl e)
       \<and> inappropriate_content_output_guardrail run_icd reply =
           (if isinstance_Exception e
            then Inr \<lparr>output_info = InfoError (str_exc e), tripwire_triggered = True\<rparr>
            else Inl e)"
proof -
  have g1: "inappropriate_content_guardrail run_in str_item input_data =
           (if isinstance_Exception e
            then Inr \<lparr>output_info = InfoError (str_exc e), tripwire_triggered = False\<rparr>
            else Inl e)"
    using assms(1) by (simp add: inappropriate_content_guardrail_def)
  have g2: "professionality_guardrail run_out answer =
           (if isinstance_Exception e
            then Inr \<lparr>output_info = InfoError (str_exc e), tripwire_triggered = False\<rparr>
            else Inl e)"
    using assms(2) by (simp add: professionality_guardrail_def)
  have g3: "math_homework_input_guardrail run_mh input =
           (if isinstance_Exception e
            then Inr \<lparr>output_info = InfoError (str_exc e), tripwire_triggered = True\<rparr>
            else Inl e)"
    using assms(3) by (simp add: math_homework_input_guardrail_def)
  have g4: "inappropriate_content_output_guardrail run_icd reply =
           (if isinstance_Exception e
            then Inr \<lparr>output_info = InfoError (str_exc e), tripwire_triggered = True\<rparr>
            else Inl e)"
    using assms(4) by (simp add: inappropriate_content_output_guardrail_def)
  from g1 g2 g3 g4 show ?thesis by (intro conjI)
qed

theorem guardrail_failure_policy_witness:
  "inappropriate_content_guardrail (raises (OtherException (ascii ''TimeoutError'') [33]))
       id (InputList [[72], [105]])
     = Inr \<lparr>output_info = InfoError [33], tripwire_triggered = False\<rparr>
   \<and> professionality_guardrail (raises (OtherException (ascii ''TimeoutError'') [33]))
       \<lparr>response = [72], category = [], confidence = 1\<rparr>
     = Inr \<lparr>output_info = InfoError [33], tripwire_triggered = False\<rparr>
   \<and> math_homework_input_guardrail (raises (OtherException (ascii ''TimeoutError'') [33]))
       (InputStr [72] :: ustr guardrail_input)
     = Inr \<lparr>output_info = InfoError [33], tripwire_triggered = True\<rparr>
   \<and> inappropriate_content_output_guardrail (raises (OtherException (ascii ''TimeoutError'') [33]))
       \<lparr>csr_response = [72], csr_category = [], helpful = True\<rparr>
     = Inr \<lparr>output_info = InfoError [33], tripwire_triggered = True\<rparr>"
  using guardrail_failure_policy
    [where run_in = "raises (OtherException (ascii ''TimeoutError'') [33])"
       and input_data = "InputList [[72], [105]]" and str_item = id
       and e = "OtherException (ascii ''TimeoutError'') [33]"
       and run_out = "raises (OtherException (ascii ''TimeoutError'') [33])"
       and answer = "\<lparr>response = [72], category = [], confidence = 1\<rparr>"
       and run_mh = "raises (OtherException (ascii ''TimeoutError'') [33])"
       and input = "InputStr [72] :: ustr guardrail_input"
       and run_icd = "raises (OtherException (ascii ''TimeoutError'') [33])"
       and reply = "\<lparr>csr_response = [72], csr_category = [], helpful = True\<rparr>"]
  by (simp add: raises_def)

text \<open>
  C4, as the claim states it, fails. With the evaluator's flag set and its confidence
  exactly at the threshold \<open>0.7\<close>, so that the predicate is at or above its threshold,
  the input guardrail of 0206 does not block, while the input guardrail of 0401 blocks on
  the same score: the two scripts do not share one threshold test. And with the flag not
  set, the guardrail of 0206 does not block at confidence \<open>1\<close>, above any threshold.
\<close>

theorem guardrail_threshold_counterexample:
  "inappropriate_content_guardrail
       (returns \<lparr>is_inappropriate = True, reason = [], confidence_score = float_0_7\<rparr>)
       id (InputStr [])
     = Inr \<lparr>output_info = Info \<lparr>is_inappropriate = True, reason = [], confidence_score = float_0_7\<rparr>,
            tripwire_triggered = False\<rparr>
   \<and> float_0_7 \<le> confidence_score \<lparr>is_inappropriate = True, reason = [], confidence_score = float_0_7\<rparr>
   \<and> math_homework_input_guardrail
       (returns \<lparr>is_math_homework = True, mh_reasoning = [], mh_confidence_score = float_0_7\<rparr>)
       (InputStr [] :: ustr guardrail_input)
     = Inr \<lparr>output_info = InfoDetection (ascii ''math_homework'')
              \<lparr>is_math_homework = True, mh_reasoning = [], mh_confidence_score = float_0_7\<rparr> True,
            tripwire_triggered = True\<rparr>
   \<and> inappropriate_content_guardrail
       (returns \<lparr>is_inappropriate = False, reason = [], confidence_score = 1\<rparr>)
       id (InputStr [])
     = Inr \<lparr>output_info = Info \<lparr>is_inappropriate = False, reason = [], confidence_score = 1\<rparr>,
            tripwire_triggered = False\<rparr>
   \<and> float_0_7 \<le> confidence_score \<lparr>is_inappropriate = False, reason = [], confidence_score = 1\<rparr>"
  by (simp add: inappropriate_content_guardrail_def math_homework_input_guardrail_def
      returns_def float_0_7_def Let_def)

text \<open>
  C4, amended. Each guardrail applies one predicate, and when the evaluator returns, the
  verdict blocks exactly when the evaluator's own flag is set and its score passes the
  test written in that guardrail: in 0206 the input guardrail blocks when
  \<open>is_inappropriate\<close> and the confidence is strictly above \<open>0.7\<close>, the output guardrail
  when not \<open>is_professional\<close> and the severity is \<open>high\<close>; in 0401 the input guardrail
  blocks when \<open>is_math_homework\<close> and the confidence is \<open>0.7\<close> or more, the output
  guardrail when \<open>is_inappropriate\<close> and the severity is \<open>medium\<close> or \<open>high\<close>. The
  thresholds are these literals of each script.
\<close>

theorem guardrail_threshold:
  assumes "run_in (case input_data of
                     InputList items \<Rightarrow> py_join [32] (map str_item items)
                   | InputStr s \<Rightarrow> s) = Inr ico"
    and "run_out (response answer) = Inr po"
    and "run_mh input = Inr mhd"
    and "run_icd (csr_response reply) = Inr icd"
  shows "inappropriate_content_guardrail run_in str_item input_data =
           Inr \<lparr>output_info = Info ico,
                tripwire_triggered = (is_inappropriate ico \<and> float_0_7 < confidence_score ico)\<rparr>
       \<and> professionality_guardrail run_out answer =
           Inr \<lparr>output_info = Info po,
                tripwire_triggered = (\<not> is_professional po \<and> severity po = ascii ''high'')\<rparr>
       \<and> math_homework_input_guardrail run_mh input =
           Inr \<lparr>output_info = InfoDetection (ascii ''math_homework'') mhd
                  (is_math_homework mhd \<and> float_0_7 \<le> mh_confidence_score mhd),
                tripwire_triggered = (is_math_homework mhd \<and> float_0_7 \<le> mh_confidence_score mhd)\<rparr>
       \<and> inappropriate_content_output_guardrail run_icd reply =
           Inr \<lparr>output_info = InfoDetection (ascii ''inappropriate_content'') icd
                  (icd_is_inappropriate icd
                   \<and> (icd_severity icd = ascii ''medium'' \<or> icd_severity icd = ascii ''high'')),
                tripwire_triggered =
                  (icd_is_inappropriate icd
                   \<and> (icd_severity icd = ascii ''medium'' \<or> icd_severity icd = ascii ''high''))\<rparr>"
proof -
  have g1: "inappropriate_content_guardrail run_in str_item input_data =
           Inr \<lparr>output_info = Info ico,
                tripwire_triggered = (is_inappropriate ico \<and> float_0_7 < confidence_score ico)\<rparr>"
    using assms(1) by (simp add: inappropriate_content_guardrail_def)
  have g2: "professionality_guardrail run_out answer =
           Inr \<lparr>output_info = Info po,
                tripwire_triggered = (\<not> is_professional po \<and> severity po = ascii ''high'')\<rparr>"
    using assms(2) by (simp add: professionality_guardrail_def Let_def)
  have g3: "math_homework_input_guardrail run_mh input =
           Inr \<lparr>output_info = InfoDetection (ascii ''math_homework'') mhd
                  (is_math_homework mhd \<and> float_0_7 \<le> mh_confidence_score mhd),
                tripwire_triggered = (is_math_homework mhd \<and> float_0_7 \<le> mh_confidence_score mhd)\<rparr>"
    using assms(3) by (simp add: math_homework_input_guardrail_def Let_def)
  have g4: "inappropriate_content_output_guardrail run_icd reply =
           Inr \<lparr>output_info = InfoDetection (ascii ''inappropriate_content'') icd
                  (icd_is_inappropriate icd
                   \<and> (icd_severity icd = ascii ''medium'' \<or> icd_severity icd = ascii ''high'')),
                tripwire_triggered =
                  (icd_is_inappropriate icd
                   \<and> (icd_severity icd = ascii ''medium'' \<or> icd_severity icd = ascii ''high''))\<rparr>"
    using assms(4) by (simp add: inappropriate_content_output_guardrail_def Let_def)
  from g1 g2 g3 g4 show ?thesis by (intro conjI)
qed

theorem guardrail_threshold_witness:
  "inappropriate_content_guardrail
       (returns \<lparr>is_inappropriate = True, reason = [], confidence_score = 9 / 10\<rparr>)
       id (InputList [[72], [105]])
     = Inr \<lparr>output_info = Info \<lparr>is_inappropriate = True, reason = [], confidence_score = 9 / 10\<rparr>,
            tripwire_triggered = True\<rparr>
   \<and> professionality_guardrail
       (returns \<lparr>is_professional = False, issues = [], severity = ascii ''medium''\<rparr>)
       \<lparr>response = [72], category = [], confidence = 1\<rparr>
     = Inr \<lparr>output_info = Info \<lparr>is_professional = False, issues = [], severity = ascii ''medium''\<rparr>,
            tripwire_triggered = False\<rparr>
   \<and> math_homework_input_guardrail
       (returns \<lparr>is_math_homework = True, mh_reasoning = [], mh_confidence_score = 1 / 2\<rparr>)
       (InputStr [72] :: ustr guardrail_input)
     = Inr \<lparr>output_info = InfoDetection (ascii ''math_homework'')
              \<lparr>is_math_homework = True, mh_reasoning = [], mh_confidence_score = 1 / 2\<rparr> False,
            tripwire_triggered = False\<rparr>
   \<and> inappropriate_content_output_guardrail
       (returns \<lparr>icd_is_inappropriate = True, icd_reasoning = [], icd_severity = ascii ''medium''\<rparr>)
       \<lparr>csr_response = [72], csr_category = [], helpful = True\<rparr>
     = Inr \<lparr>output_info = InfoDetection (ascii ''inappropriate_content'')
              \<lparr>icd_is_inappropriate = True, icd_reasoning = [], icd_severity = ascii ''medium''\<rparr> True,
            tripwire_triggered = True\<rparr>"
  using guardrail_threshold
    [where run_in = "returns \<lparr>is_inappropriate = True, reason = [], confidence_score = 9 / 10\<rparr>"
       and input_data = "InputList [[72], [105]]" and str_item = id
       and ico = "\<lparr>is_inappropriate = True, reason = [], confidence_score = 9 / 10\<rparr>"
       and run_out = "returns \<lparr>is_professional = False, issues = [], severity = ascii ''medium''\<rparr>"
       and answer = "\<lparr>response = [72], category = [], confidence = 1\<rparr>"
       and po = "\<lparr>is_professional = False, issues = [], severity = ascii ''medium''\<rparr>"
       and run_mh = "returns \<lparr>is_math_homework = True, mh_reasoning = [], mh_confidence_score = 1 / 2\<rparr>"
       and input = "InputStr [72] :: ustr guardrail_input"
       and mhd = "\<lparr>is_math_homework = True, mh_reasoning = [], mh_confidence_score = 1 / 2\<rparr>"
       and run_icd = "returns \<lparr>icd_is_inappropriate = True, icd_reasoning = [], icd_severity = ascii ''medium''\<rparr>"
       and reply = "\<lparr>csr_response = [72], csr_category = [], helpful = True\<rparr>"
       and icd = "\<lparr>icd_is_inappropriate = True, icd_reasoning = [], icd_severity = ascii ''medium''\<rparr>"]
  by (simp add: returns_def float_0_7_def ascii_def)


text \<open>
  C5 at a history of six purchases, appended in the order A, B, C, D, E, F.
  \<open>check_purchase_history\<close> reports the first five, A to E, where the five most recent
  are B to F: its slice \<open>[:5]\<close> cuts from the oldest end, against its own comment
  ("the latest five"). On the same list the slice \<open>[-3:]\<close> of \<open>filter_summary_only\<close>
  gives the three most recent, D to F, in insertion order.
\<close>

theorem check_purchase_history_oldest_five:
  "check_purchase_history
       \<lparr>name = [85], user_id = [], language = [], is_premium_user = False, location = [],
        preferences = (), purchase_history = Some [[65], [66], [67], [68], [69], [70]]\<rparr>
     = [85] @ recent_purchases @ ascii ''A, B, C, D, E''
   \<and> py_slice_to [[65], [66], [67], [68], [69], [70::nat]] 5 = [[65], [66], [67], [68], [69]]
   \<and> drop (length [[65], [66], [67], [68], [69], [70::nat]] - 5)
         [[65], [66], [67], [68], [69], [70::nat]]
       = [[66], [67], [68], [69], [70]]
   \<and> py_slice_from [[65], [66], [67], [68], [69], [70::nat]] (- 3) = [[68], [69], [70]]"
  by (simp add: check_purchase_history_def py_slice_to_def py_slice_from_def ascii_def)

text \<open>
  C6, as the claim states it, fails. When the run of the triage agent raises
  \<open>APIConnectionError\<close>, \<open>main\<close> ends with that exception raised: nothing catches it.
  \<open>run_scenario\<close> does catch it, but what it gives is the two error lines and \<open>False\<close>,
  not a category \<open>GENERAL\<close> with confidence \<open>0\<close> and the rationale
  \<open>classifier_unavailable\<close>.
\<close>

theorem triage_failure_counterexample:
  "snd (snd (main [ascii ''hi'']
       (run_raises (OtherException (ascii ''APIConnectionError'') (ascii ''Connection error.''))
          :: agent \<Rightarrow> unit input_item list \<Rightarrow> AirlineAgentContext
               \<Rightarrow> AirlineAgentContext \<times> (py_error + unit RunResult))))
     = OtherException (ascii ''APIConnectionError'') (ascii ''Connection error.'')
   \<and> run_scenario
       (scenario_run_raises (OtherException (ascii ''APIConnectionError'') (ascii ''Connection error.'')))
       (ascii ''s'') (ascii ''q'') sample_customer
     = (scenario_header (ascii ''s'') (ascii ''q'') sample_customer
          @ [label_error @ ascii ''APIConnectionError'', label_detail @ ascii ''Connection error.''],
        Inr False)"
  by (simp add: main_def main_turn_def run_raises_def run_scenario_def scenario_run_raises_def)

text \<open>
  C6, amended. When the run of the triage agent raises an exception \<open>e\<close>,
  \<open>run_scenario\<close> does not raise if \<open>e\<close> is an \<open>Exception\<close>: it prints the error line
  with the class name and the detail line with the message, and returns \<open>False\<close>; no
  category or answer is produced. An exception that is not an \<open>Exception\<close> leaves
  \<open>run_scenario\<close>. The loop of \<open>main\<close> has no handler: the turn ends with \<open>e\<close>
  raised, and so does the loop, whatever input is still waiting.
\<close>

theorem triage_failure:
  assumes "run q c 10 = Inl e"
    and "mrun (current_agent st) (input_items st @ [UserMessage u]) (airline_context st) = (ctx, Inl e)"
  shows "run_scenario run s q c =
           (if isinstance_Exception e
            then (scenario_header s q c @ [label_error @ type_name e, label_detail @ str_exc e],
                  Inr False)
            else (scenario_header s q c, Inl e))
       \<and> snd (snd (main_turn st u mrun)) = Some e
       \<and> snd (snd (main_loop st (u # us) mrun)) = e"
  using assms by (simp add: run_scenario_def main_turn_def)

theorem triage_failure_witness:
  "run_scenario (scenario_run_raises (OtherException (ascii ''APIConnectionError'') []))
       (ascii ''s'') (ascii ''q'') sample_customer
     = (scenario_header (ascii ''s'') (ascii ''q'') sample_customer
          @ [label_error @ ascii ''APIConnectionError'', label_detail @ []],
        Inr False)
   \<and> snd (snd (main_loop (initial_state :: unit main_state) [ascii ''hi'', ascii ''again'']
        (run_raises (OtherException (ascii ''APIConnectionError'') []))))
     = OtherException (ascii ''APIConnectionError'') []"
  using triage_failure
    [where run = "scenario_run_raises (OtherException (ascii ''APIConnectionError'') [])"
       and q = "ascii ''q''" and c = sample_customer
       and e = "OtherException (ascii ''APIConnectionError'') []"
       and mrun = "run_raises (OtherException (ascii ''APIConnectionError'') [])"
       and st = "initial_state :: unit main_state" and u = "ascii ''hi''"
       and ctx = "airline_context (initial_state :: unit main_state)"
       and s = "ascii ''s''" and us = "[ascii ''again'']"]
  by (simp add: scenario_run_raises_def run_raises_def)

text \<open>
  C7, as the claim states it, fails on the loop of \<open>main\<close>. A turn that is cancelled
  during the run, from the empty history, leaves the user's message in \<open>input_items\<close>:
  the message is appended before the run, and nothing takes it back.
\<close>

theorem main_turn_partial_append_counterexample:
  "input_items (fst (main_turn (initial_state :: unit main_state) (ascii ''hi'')
       (run_raises (OtherBaseException (ascii ''CancelledError'') []))))
     = [UserMessage (ascii ''hi'')]
   \<and> input_items (initial_state :: unit main_state) = []
   \<and> snd (snd (main_turn (initial_state :: unit main_state) (ascii ''hi'')
       (run_raises (OtherBaseException (ascii ''CancelledError'') []))))
     = Some (OtherBaseException (ascii ''CancelledError'') [])"
  by (simp add: main_turn_def run_raises_def initial_state_def)

text \<open>
  C7, amended. A turn of \<open>main\<close> appends the user's message to \<open>input_items\<close> before
  the run. If the run returns, \<open>input_items\<close> is replaced as a whole by
  \<open>result.to_input_list()\<close> and \<open>current_agent\<close> by \<open>result.last_agent\<close>. If the run
  raises or is cancelled, \<open>input_items\<close> is the list before the turn followed by the
  user's message, \<open>current_agent\<close> is as before, and the exception leaves the turn.
\<close>

theorem main_turn_history:
  assumes "run (current_agent st) (input_items st @ [UserMessage u]) (airline_context st)
             = (ctx, outcome)"
  shows "input_items (fst (main_turn st u run)) =
           (case outcome of
              Inl e \<Rightarrow> input_items st @ [UserMessage u]
            | Inr result \<Rightarrow> rr_to_input_list result)
       \<and> current_agent (fst (main_turn st u run)) =
           (case outcome of
              Inl e \<Rightarrow> current_agent st
            | Inr result \<Rightarrow> rr_last_agent result)
       \<and> snd (snd (main_turn st u run)) =
           (case outcome of Inl e \<Rightarrow> Some e | Inr result \<Rightarrow> None)"
  using assms by (simp add: main_turn_def split: sum.split)

theorem main_turn_history_witness:
  "input_items (fst (main_turn (initial_state :: unit main_state) (ascii ''hi'')
       (run_returns \<lparr>rr_new_items = [], rr_to_input_list = [UserMessage (ascii ''hi''), OtherInputItem ()],
                     rr_last_agent = FAQAgent\<rparr>)))
     = [UserMessage (ascii ''hi''), OtherInputItem ()]
   \<and> current_agent (fst (main_turn (initial_state :: unit main_state) (ascii ''hi'')
       (run_returns \<lparr>rr_new_items = [], rr_to_input_list = [UserMessage (ascii ''hi''), OtherInputItem ()],
                     rr_last_agent = FAQAgent\<rparr>)))
     = FAQAgent
   \<and> snd (snd (main_turn (initial_state :: unit main_state) (ascii ''hi'')
       (run_returns \<lparr>rr_new_items = [], rr_to_input_list = [UserMessage (ascii ''hi''), OtherInputItem ()],
                     rr_last_agent = FAQAgent\<rparr>)))
     = None"
  using main_turn_history
    [where run = "run_returns \<lparr>rr_new_items = [],
                     rr_to_input_list = [UserMessage (ascii ''hi''), OtherInputItem ()],
                     rr_last_agent = FAQAgent\<rparr>"
       and st = "initial_state :: unit main_state" and u = "ascii ''hi''"
       and ctx = "airline_context (initial_state :: unit main_state)"
       and outcome = "Inr \<lparr>rr_new_items = [],
                     rr_to_input_list = [UserMessage (ascii ''hi''), OtherInputItem ()],
                     rr_last_agent = FAQAgent\<rparr>"]
  by (simp add: run_returns_def)






end
